theory Spec2Isabelle
  imports Complex_Main "HOL-Library.Word" "HOL-Library.AList"
begin

unbundle bit_operations_syntax

section \<open>Senpai: a memory-pressure controller for one cgroup\<close>

text \<open>
  This theory embeds \<^verbatim>\<open>senpai.py\<close>. Python integers are \<^typ>\<open>int\<close>. Python floats
  are modelled as exact \<^typ>\<open>real\<close> numbers: rounding, infinities and NaN of binary
  floating point are outside the model, and so is the \<^verbatim>\<open>OverflowError\<close> that
  float arithmetic can raise. Every other exception of the source is a value of
  \<open>error\<close>, and a function that can raise returns \<open>error + 'a\<close>.
  File contents are ASCII strings. The human-readable size formatter \<^verbatim>\<open>h\<close> and
  the timestamps of \<^verbatim>\<open>log\<close> only shape the printed text and are not modelled;
  each printed line is an \<open>event\<close> carrying the values it prints.
\<close>

subsection \<open>Errors, output and the file system\<close>

datatype error = OSError | IndexError | ValueError | ZeroDivisionError | TypeError

datatype pyfloat = Finite real | Infinity bool | NaN

record conf =
  cgpath :: string
  min_size :: int
  max_size :: int
  interval :: int
  pressure :: int
  max_probe :: real
  max_backoff :: real
  coeff_probe :: int
  coeff_backoff :: int

datatype event =
    ConfigurationLines conf
  | ResettingLine
  | TickLine int pyfloat int int int int
  | AdjustLine real

text \<open>
  The world outside the process: the files by path, the paths that cannot be opened
  for writing, and what has been printed to standard output so far.
\<close>

record world =
  files :: "(string \<times> string) list"
  unwritable :: "string list"
  stdout :: "event list"

definition log_out :: "world \<Rightarrow> event \<Rightarrow> world" where
  "log_out w e = w\<lparr>stdout := stdout w @ [e]\<rparr>"

subsection \<open>Python built-ins used by the source\<close>

definition newline :: char where
  "newline = CHR 0x0A"

definition carriage_return :: char where
  "carriage_return = CHR 0x0D"

text \<open>Text-mode reading translates \<^verbatim>\<open>\r\n\<close> and \<^verbatim>\<open>\r\<close> to \<^verbatim>\<open>\n\<close>.\<close>

fun universal_newlines :: "string \<Rightarrow> string" where
  "universal_newlines [] = []"
| "universal_newlines [c] = (if c = carriage_return then [newline] else [c])"
| "universal_newlines (c # d # cs) =
     (if c = carriage_return
      then (if d = newline then newline # universal_newlines cs
            else newline # universal_newlines (d # cs))
      else c # universal_newlines (d # cs))"

text \<open>\<^verbatim>\<open>str.isspace\<close> on ASCII characters.\<close>

definition isspace :: "char \<Rightarrow> bool" where
  "isspace c = (c \<in> set [CHR 0x09, CHR 0x0A, CHR 0x0B, CHR 0x0C, CHR 0x0D,
                          CHR 0x1C, CHR 0x1D, CHR 0x1E, CHR 0x1F, CHR 0x20])"

definition isdigit :: "char \<Rightarrow> bool" where
  "isdigit c = ((48::nat) \<le> of_char c \<and> of_char c \<le> (57::nat))"

definition digit_val :: "char \<Rightarrow> int" where
  "digit_val c = of_char c - 48"

text \<open>\<^verbatim>\<open>s.split()\<close>: the maximal runs of characters that are not whitespace.\<close>

fun split_acc :: "string \<Rightarrow> string \<Rightarrow> string list" where
  "split_acc cur [] = (if cur = [] then [] else [cur])"
| "split_acc cur (c # cs) =
     (if isspace c
      then (if cur = [] then split_acc [] cs else cur # split_acc [] cs)
      else split_acc (cur @ [c]) cs)"

definition split :: "string \<Rightarrow> string list" where
  "split s = split_acc [] s"

text \<open>\<^verbatim>\<open>s.split(sep)\<close> for a separator of one character: never an empty list.\<close>

fun split_on :: "char \<Rightarrow> string \<Rightarrow> string list" where
  "split_on sep [] = [[]]"
| "split_on sep (c # cs) =
     (if c = sep then [] # split_on sep cs
      else (case split_on sep cs of [] \<Rightarrow> [[c]] | y # ys \<Rightarrow> (c # y) # ys))"

text \<open>\<^verbatim>\<open>f.readlines()\<close>: the lines of the translated text, each with its newline.\<close>

fun lines_acc :: "string \<Rightarrow> string \<Rightarrow> string list" where
  "lines_acc cur [] = (if cur = [] then [] else [cur])"
| "lines_acc cur (c # cs) =
     (if c = newline then (cur @ [c]) # lines_acc [] cs else lines_acc (cur @ [c]) cs)"

text \<open>\<^verbatim>\<open>xs[i]\<close> for a literal index \<open>i \<ge> 0\<close>.\<close>

definition index :: "'a list \<Rightarrow> nat \<Rightarrow> error + 'a" where
  "index xs i = (if i < length xs then Inr (xs ! i) else Inl IndexError)"

text \<open>\<^verbatim>\<open>s.strip()\<close>, as \<^verbatim>\<open>int\<close> and \<^verbatim>\<open>float\<close> apply it to their argument.\<close>

definition strip :: "string \<Rightarrow> string" where
  "strip s = rev (dropWhile isspace (rev (dropWhile isspace s)))"

text \<open>
  A digit part: decimal digits, with single underscores allowed between two digits.
  It is a list of non-empty groups of digits separated by underscores.
\<close>

definition digitpart :: "string \<Rightarrow> bool" where
  "digitpart s = list_all (\<lambda>g. g \<noteq> [] \<and> list_all isdigit g) (split_on (CHR ''_'') s)"

definition digits_val :: "string \<Rightarrow> int" where
  "digits_val s = foldl (\<lambda>n c. 10 * n + digit_val c) 0 (filter isdigit s)"

text \<open>
  \<^verbatim>\<open>int(s)\<close> on a string, base ten. The limit on the number of digits that newer
  interpreters enforce is not modelled.
\<close>

definition py_int :: "string \<Rightarrow> error + int" where
  "py_int s =
     (let t = strip s;
          neg = (t \<noteq> [] \<and> hd t = CHR ''-'');
          body = (if t \<noteq> [] \<and> (hd t = CHR ''-'' \<or> hd t = CHR ''+'') then tl t else t)
      in if digitpart body
         then Inr (if neg then - digits_val body else digits_val body)
         else Inl ValueError)"

text \<open>\<^verbatim>\<open>str(i)\<close> for an integer.\<close>

function str_digits :: "int \<Rightarrow> string" where
  "str_digits n =
     (if n < 10 then [char_of (48 + n)]
      else str_digits (n div 10) @ [char_of (48 + n mod 10)])"
  by pat_completeness auto
termination
  by (relation "measure nat") auto

declare str_digits.simps [simp del]

definition str :: "int \<Rightarrow> string" where
  "str i = (if i < 0 then CHR ''-'' # str_digits (- i) else str_digits i)"

text \<open>\<^verbatim>\<open>int(x)\<close> on a float: truncation towards zero.\<close>

definition trunc :: "real \<Rightarrow> int" where
  "trunc r = (if 0 \<le> r then \<lfloor>r\<rfloor> else \<lceil>r\<rceil>)"

text \<open>
  \<^verbatim>\<open>float(s)\<close> on a string: an optional sign, then \<^verbatim>\<open>inf\<close>, \<^verbatim>\<open>infinity\<close> or
  \<^verbatim>\<open>nan\<close> in any case, or a decimal number with an optional fraction and exponent.
  The value of a number is exact.
\<close>

definition lower :: "char \<Rightarrow> char" where
  "lower c = (if (65::nat) \<le> of_char c \<and> of_char c \<le> (90::nat)
              then char_of (of_char c + (32::nat)) else c)"

definition mantissa :: "string \<Rightarrow> real option" where
  "mantissa m =
     (case split_on (CHR ''.'') m of
        [ip] \<Rightarrow> (if digitpart ip then Some (real_of_int (digits_val ip)) else None)
      | [ip, fp] \<Rightarrow>
          (if (ip = [] \<or> digitpart ip) \<and> (fp = [] \<or> digitpart fp) \<and> \<not> (ip = [] \<and> fp = [])
           then Some (real_of_int (digits_val ip)
                      + real_of_int (digits_val fp) / 10 ^ length (filter isdigit fp))
           else None)
      | _ \<Rightarrow> None)"

definition exponent :: "string \<Rightarrow> int option" where
  "exponent x =
     (let neg = (x \<noteq> [] \<and> hd x = CHR ''-'');
          body = (if x \<noteq> [] \<and> (hd x = CHR ''-'' \<or> hd x = CHR ''+'') then tl x else x)
      in if digitpart body
         then Some (if neg then - digits_val body else digits_val body)
         else None)"

definition pow10 :: "int \<Rightarrow> real" where
  "pow10 e = (if 0 \<le> e then 10 ^ nat e else 1 / 10 ^ nat (- e))"

definition floatnumber :: "string \<Rightarrow> real option" where
  "floatnumber b =
     (case split_on (CHR ''e'') b of
        [m] \<Rightarrow> mantissa m
      | [m, x] \<Rightarrow>
          (case mantissa m of
             None \<Rightarrow> None
           | Some v \<Rightarrow> (case exponent x of None \<Rightarrow> None | Some e \<Rightarrow> Some (v * pow10 e)))
      | _ \<Rightarrow> None)"

definition py_float :: "string \<Rightarrow> error + pyfloat" where
  "py_float s =
     (let t = map lower (strip s);
          neg = (t \<noteq> [] \<and> hd t = CHR ''-'');
          body = (if t \<noteq> [] \<and> (hd t = CHR ''-'' \<or> hd t = CHR ''+'') then tl t else t)
      in if body = ''inf'' \<or> body = ''infinity'' then Inr (Infinity neg)
         else if body = ''nan'' then Inr NaN
         else (case floatnumber body of
                 None \<Rightarrow> Inl ValueError
               | Some v \<Rightarrow> Inr (Finite (if neg then - v else v))))"

text \<open>\<^verbatim>\<open>os.path.join(a, p)\<close> on POSIX paths.\<close>

definition path_join :: "string \<Rightarrow> string \<Rightarrow> string" where
  "path_join a p =
     (if p \<noteq> [] \<and> hd p = CHR ''/'' then p
      else if a = [] \<or> last a = CHR ''/'' then a @ p
      else a @ ''/'' @ p)"

text \<open>Sequencing of calls that can raise: the first error ends the computation.\<close>

definition bind_err :: "error + 'a \<Rightarrow> ('a \<Rightarrow> error + 'b) \<Rightarrow> error + 'b" where
  "bind_err m f = (case m of Inl e \<Rightarrow> Inl e | Inr x \<Rightarrow> f x)"

subsection \<open>Class \<^verbatim>\<open>Cgroup\<close>\<close>

record cgroup =
  path :: string
  limit :: "int option"
  limit_min :: int
  limit_max :: int

text \<open>Cgroupfs IO (lines 75 to 94).\<close>

definition read :: "cgroup \<Rightarrow> world \<Rightarrow> string \<Rightarrow> error + string" where
  "read c w filename =
     (case map_of (files w) (path_join (path c) filename) of
        None \<Rightarrow> Inl OSError
      | Some s \<Rightarrow> Inr (universal_newlines s))"

definition readlines :: "cgroup \<Rightarrow> world \<Rightarrow> string \<Rightarrow> error + string list" where
  "readlines c w filename =
     (case map_of (files w) (path_join (path c) filename) of
        None \<Rightarrow> Inl OSError
      | Some s \<Rightarrow> Inr (lines_acc [] (universal_newlines s)))"

definition write_cg :: "cgroup \<Rightarrow> world \<Rightarrow> string \<Rightarrow> string \<Rightarrow> error + world" where
  "write_cg c w filename string =
     (if path_join (path c) filename \<in> set (unwritable w) then Inl OSError
      else Inr (w\<lparr>files := AList.update (path_join (path c) filename) string (files w)\<rparr>))"

definition read_current :: "cgroup \<Rightarrow> world \<Rightarrow> error + int" where
  "read_current c w = bind_err (read c w ''memory.current'') py_int"

definition read_limit :: "cgroup \<Rightarrow> world \<Rightarrow> error + int" where
  "read_limit c w =
     bind_err (read c w ''memory.high'')
       (\<lambda>x. if x = ''max'' @ [newline] then Inr ((push_bit 64 1) - 1) else py_int x)"

text \<open>The pressure file (lines 46 to 50): field 1 and field 4 of the first line.\<close>

definition pressure_cg :: "cgroup \<Rightarrow> world \<Rightarrow> error + pyfloat" where
  "pressure_cg c w =
     bind_err (readlines c w ''memory.pressure'') (\<lambda>ls.
     bind_err (index ls 0) (\<lambda>l.
     bind_err (index (split l) 1) (\<lambda>t.
     bind_err (index (split_on (CHR ''='') t) 1) py_float)))"

definition total_cg :: "cgroup \<Rightarrow> world \<Rightarrow> error + int" where
  "total_cg c w =
     bind_err (readlines c w ''memory.pressure'') (\<lambda>ls.
     bind_err (index ls 0) (\<lambda>l.
     bind_err (index (split l) 4) (\<lambda>t.
     bind_err (index (split_on (CHR ''='') t) 1) py_int)))"

text \<open>
  \<^verbatim>\<open>import_limit\<close> (lines 63 to 71). The candidate is \<open>None\<close> in the call of the
  constructor; comparing \<open>None\<close> with an integer in \<^verbatim>\<open>min\<close> raises \<^verbatim>\<open>TypeError\<close>.
\<close>

definition import_limit :: "cgroup \<Rightarrow> world \<Rightarrow> int option \<Rightarrow> error + cgroup \<times> world" where
  "import_limit c w cand =
     bind_err (read_limit c w) (\<lambda>rl.
     bind_err (if Some rl \<noteq> limit c
               then bind_err (read_current c w) (\<lambda>cur. Inr (Some cur, log_out w ResettingLine))
               else Inr (cand, w)) (\<lambda>(cand1, w1).
     case cand1 of
       None \<Rightarrow> Inl TypeError
     | Some l \<Rightarrow> Inr (c\<lparr>limit := Some (max (limit_min c) (min (limit_max c) l) AND NOT 4095)\<rparr>, w1)))"

definition set_limit :: "cgroup \<Rightarrow> world \<Rightarrow> int option \<Rightarrow> error + cgroup \<times> world" where
  "set_limit c w cand =
     bind_err (import_limit c w cand) (\<lambda>(c1, w1).
     bind_err (write_cg c1 w1 ''memory.high''
                 (case limit c1 of None \<Rightarrow> ''None'' | Some l \<Rightarrow> str l)) (\<lambda>w2.
     Inr (c1, w2)))"

definition scale_limit :: "cgroup \<Rightarrow> world \<Rightarrow> real \<Rightarrow> error + cgroup \<times> world" where
  "scale_limit c w factor =
     bind_err (read_limit c w) (\<lambda>x.
     set_limit c w (Some (trunc (real_of_int x + real_of_int x * factor))))"

definition Cgroup_init :: "string \<Rightarrow> int \<Rightarrow> int \<Rightarrow> world \<Rightarrow> error + cgroup \<times> world" where
  "Cgroup_init p lmin lmax w =
     (let c = \<lparr>path = p, limit = None, limit_min = lmin, limit_max = lmax\<rparr>
      in bind_err (pressure_cg c w) (\<lambda>_. set_limit c w None))"

subsection \<open>Class \<^verbatim>\<open>Senpai\<close>\<close>

record senpai =
  conf :: conf
  cgroup :: cgroup
  last_total :: int
  integral :: int
  grace_ticks :: int

definition Senpai_init :: "conf \<Rightarrow> world \<Rightarrow> error + senpai \<times> world" where
  "Senpai_init cf w =
     bind_err (Cgroup_init (cgpath cf) (min_size cf) (max_size cf)
                 (log_out w (ConfigurationLines cf))) (\<lambda>(c, w1).
     bind_err (total_cg c w1) (\<lambda>t.
     Inr (\<lparr>conf = cf, cgroup = c, last_total = t, integral = 0, grace_ticks = interval cf\<rparr>, w1)))"

definition adjust :: "senpai \<Rightarrow> world \<Rightarrow> real \<Rightarrow> error + senpai \<times> world" where
  "adjust s w factor =
     bind_err (scale_limit (cgroup s) (log_out w (AdjustLine factor)) factor) (\<lambda>(c1, w1).
     Inr (s\<lparr>cgroup := c1, integral := 0\<rparr>, w1))"

text \<open>
  The two response curves of \<^verbatim>\<open>tick\<close>: lines 131 to 133 (backing off) and lines
  144 to 146 (probing). A division by zero raises.
\<close>

definition backoff_adj :: "conf \<Rightarrow> int \<Rightarrow> error + real" where
  "backoff_adj cf i =
     (if pressure cf = 0 then Inl ZeroDivisionError
      else let err = real_of_int i / real_of_int (pressure cf)
           in if coeff_backoff cf = 0 then Inl ZeroDivisionError
              else let adj = (err / real_of_int (coeff_backoff cf)) ^ 2
                   in Inr (min (adj * max_backoff cf) (max_backoff cf)))"

definition probe_adj :: "conf \<Rightarrow> int \<Rightarrow> error + real" where
  "probe_adj cf i =
     (let err = real_of_int (pressure cf) / real_of_int (max i 1)
      in if coeff_probe cf = 0 then Inl ZeroDivisionError
         else let adj = (err / real_of_int (coeff_probe cf)) ^ 2
              in Inr (min (adj * max_probe cf) (max_probe cf)))"

definition tick :: "senpai \<Rightarrow> world \<Rightarrow> error + senpai \<times> world" where
  "tick s w =
     bind_err (total_cg (cgroup s) w) (\<lambda>total.
     let delta = total - last_total s;
         s1 = s\<lparr>last_total := total, integral := integral s + delta\<rparr>
     in
     bind_err (read_limit (cgroup s1) w) (\<lambda>rl.
     bind_err (pressure_cg (cgroup s1) w) (\<lambda>pr.
     let w1 = log_out w (TickLine rl pr (grace_ticks s1) total delta (integral s1))
     in
     if integral s1 > pressure (conf s1) then
       bind_err (backoff_adj (conf s1) (integral s1)) (\<lambda>adj.
       bind_err (adjust s1 w1 adj) (\<lambda>(s2, w2).
       Inr (s2\<lparr>grace_ticks := interval (conf s2) - 1\<rparr>, w2)))
     else if grace_ticks s1 \<noteq> 0 then
       Inr (s1\<lparr>grace_ticks := grace_ticks s1 - 1\<rparr>, w1)
     else
       bind_err (probe_adj (conf s1) (integral s1)) (\<lambda>adj.
       bind_err (adjust s1 w1 (- adj)) (\<lambda>(s2, w2).
       Inr (s2\<lparr>grace_ticks := interval (conf s2) - 1\<rparr>, w2))))))"

text \<open>
  \<^verbatim>\<open>run\<close> never returns. Its first ticks are modelled: between two ticks the process
  sleeps, and the rest of the system changes the files; one function on the files per
  sleep says how.
\<close>

fun run :: "senpai \<Rightarrow> world \<Rightarrow> ((string \<times> string) list \<Rightarrow> (string \<times> string) list) list
              \<Rightarrow> error + senpai \<times> world" where
  "run s w [] = Inr (s, w)"
| "run s w (e # es) =
     bind_err (tick s (w\<lparr>files := e (files w)\<rparr>)) (\<lambda>(s1, w1). run s1 w1 es)"

text \<open>Shorthands for the statements below: the value \<^verbatim>\<open>import_limit\<close> stores for a
  candidate, and the path of the limit file.\<close>

abbreviation sanitized :: "cgroup \<Rightarrow> int \<Rightarrow> int" where
  "sanitized c l \<equiv> max (limit_min c) (min (limit_max c) l) AND NOT 4095"

abbreviation high_path :: "cgroup \<Rightarrow> string" where
  "high_path c \<equiv> path_join (path c) ''memory.high''"

subsection \<open>Concrete inputs\<close>

text \<open>
  A cgroup directory \<^verbatim>\<open>cg\<close> with no pressure so far, no limit set and one GiB in
  use, and the configuration of the command line's defaults.
\<close>

definition psi_quiet :: string where
  "psi_quiet = ''some avg10=0.00 avg60=0.00 avg300=0.00 total=0'' @ [newline]
             @ ''full avg10=0.00 avg60=0.00 avg300=0.00 total=0'' @ [newline]"

definition ex_files :: "(string \<times> string) list" where
  "ex_files = [(''cg/memory.pressure'', psi_quiet),
               (''cg/memory.high'', ''max'' @ [newline]),
               (''cg/memory.current'', ''1073741824'' @ [newline])]"

definition ex_world :: world where
  "ex_world = \<lparr>files = ex_files, unwritable = [], stdout = []\<rparr>"


definition ex_cgroup :: cgroup where
  "ex_cgroup = \<lparr>path = ''cg'', limit = None, limit_min = 104857600, limit_max = 107374182400\<rparr>"

text \<open>The same directory once the limit of one GiB has been written.\<close>

definition ex_files_set :: "(string \<times> string) list" where
  "ex_files_set = [(''cg/memory.pressure'', psi_quiet),
                   (''cg/memory.high'', ''1073741824''),
                   (''cg/memory.current'', ''1073741824'' @ [newline])]"

text \<open>A cgroup whose lower bound of 100 bytes is not a multiple of the page size.\<close>

definition odd_cgroup :: cgroup where
  "odd_cgroup = \<lparr>path = ''cg'', limit = Some 4096, limit_min = 100, limit_max = 10000\<rparr>"

definition odd_world :: world where
  "odd_world = \<lparr>files = [(''cg/memory.high'', ''4096''), (''cg/memory.current'', ''5000'')],
                 unwritable = [], stdout = []\<rparr>"








lemma bind_err_Inl [simp]: "bind_err (Inl e) f = Inl e"
  by (simp add: bind_err_def)

lemma bind_err_Inr [simp]: "bind_err (Inr x) f = f x"
  by (simp add: bind_err_def)

lemma bind_err_eq_Inr: "bind_err m f = Inr y \<longleftrightarrow> (\<exists>x. m = Inr x \<and> f x = Inr y)"
  by (cases m) auto

lemma and_not_mask_int: "(l::int) AND NOT (mask n) = push_bit n (drop_bit n l)"
  by (rule bit_eqI) (auto simp: bit_simps)

lemma and_not_4095: "(l::int) AND NOT 4095 = l - l mod 4096"
proof -
  have m: "(4095::int) = mask 12"
    by (simp add: mask_eq_exp_minus_1)
  have "l AND NOT (mask 12) = push_bit 12 (drop_bit 12 l)"
    by (rule and_not_mask_int)
  also have "\<dots> = l - take_bit 12 l"
    using bits_ident [of 12 l] by simp
  also have "\<dots> = l - l mod 4096"
    by (simp add: take_bit_int_def)
  finally show ?thesis
    using m by simp
qed

lemma align_le: "(l::int) AND NOT 4095 \<le> l"
  unfolding and_not_4095 by simp

lemma align_gt: "l - 4096 < (l::int) AND NOT 4095"
  unfolding and_not_4095 by simp

lemma align_low_bits: "take_bit 12 ((l::int) AND NOT 4095) = 0"
  unfolding and_not_4095 take_bit_int_def by (simp add: mod_diff_left_eq [symmetric])

lemma align_ge_aligned:
  assumes "4096 dvd m" and "m \<le> (l::int)"
  shows "m \<le> l AND NOT 4095"
proof -
  from assms(1) obtain k where m: "m = 4096 * k" ..
  have "k \<le> l div 4096"
    using assms(2) m by (simp add: zdiv_mono1 [of "4096 * k" l 4096, simplified])
  then have "4096 * k \<le> 4096 * (l div 4096)"
    by simp
  also have "\<dots> = l - l mod 4096"
    by (simp add: minus_mod_eq_mult_div)
  finally show ?thesis
    unfolding and_not_4095 m .
qed

lemma import_limit_Inr:
  assumes "import_limit c w cand = Inr (c', w')"
  shows "\<exists>rl l. read_limit c w = Inr rl
           \<and> (if Some rl \<noteq> limit c
               then read_current c w = Inr l \<and> w' = log_out w ResettingLine
               else cand = Some l \<and> w' = w)
           \<and> c' = c\<lparr>limit := Some (max (limit_min c) (min (limit_max c) l) AND NOT 4095)\<rparr>"
proof -
  from assms obtain rl where rl: "read_limit c w = Inr rl"
    unfolding import_limit_def by (auto simp: bind_err_eq_Inr)
  show ?thesis
  proof (cases "Some rl \<noteq> limit c")
    case True
    with assms rl obtain cur where "read_current c w = Inr cur"
      unfolding import_limit_def by (auto simp: bind_err_eq_Inr)
    with assms rl True show ?thesis
      unfolding import_limit_def by simp
  next
    case False
    with assms rl obtain l where "cand = Some l"
      unfolding import_limit_def by (cases cand) auto
    with assms rl False show ?thesis
      unfolding import_limit_def by simp
  qed
qed
lemma set_limit_Inr:
  assumes "set_limit c w cand = Inr (c', w')"
  shows "\<exists>w1 l. import_limit c w cand = Inr (c', w1) \<and> limit c' = Some l
           \<and> path_join (path c) ''memory.high'' \<notin> set (unwritable w1)
           \<and> w' = w1\<lparr>files := AList.update (path_join (path c) ''memory.high'') (str l) (files w1)\<rparr>"
proof -
  from assms obtain c1 w1 w2 where
    i: "import_limit c w cand = Inr (c1, w1)" and
    wr: "write_cg c1 w1 ''memory.high'' (case limit c1 of None \<Rightarrow> ''None'' | Some l \<Rightarrow> str l) = Inr w2" and
    r: "c' = c1" "w' = w2"
    unfolding set_limit_def by (auto simp: bind_err_eq_Inr)
  from import_limit_Inr [OF i] obtain l where l: "limit c1 = Some l" and p: "path c1 = path c"
    by auto
  from wr l p r show ?thesis
    using i by (auto simp: write_cg_def split: if_splits)
qed


text \<open>The limit that \<^verbatim>\<open>set_limit\<close> stores: written, aligned and, under conditions, bounded.\<close>

lemma set_limit_bounds_aligned_aux:
  assumes "set_limit c w cand = Inr (c', w')"
  shows "\<exists>l. limit c' = Some l
           \<and> map_of (files w') (path_join (path c) ''memory.high'') = Some (str l)
           \<and> take_bit 12 l = 0
           \<and> (limit_min c \<le> limit_max c \<longrightarrow> l \<le> limit_max c)
           \<and> (4096 dvd limit_min c \<longrightarrow> limit_min c \<le> l)
           \<and> limit_min c' = limit_min c \<and> limit_max c' = limit_max c"
proof -
  from set_limit_Inr [OF assms] obtain w1 l where
    i: "import_limit c w cand = Inr (c', w1)" and
    l: "limit c' = Some l" and
    w': "w' = w1\<lparr>files := AList.update (path_join (path c) ''memory.high'') (str l) (files w1)\<rparr>"
    by blast
  from import_limit_Inr [OF i] obtain x where
    c': "c' = c\<lparr>limit := Some (max (limit_min c) (min (limit_max c) x) AND NOT 4095)\<rparr>"
    by blast
  define m where "m = max (limit_min c) (min (limit_max c) x)"
  from c' l have lm: "l = m AND NOT 4095"
    by (simp add: m_def)
  have written: "map_of (files w') (path_join (path c) ''memory.high'') = Some (str l)"
    by (simp add: w' update_conv')
  have low: "take_bit 12 l = 0"
    unfolding lm by (rule align_low_bits)
  have upper: "l \<le> limit_max c" if "limit_min c \<le> limit_max c"
  proof -
    have "l \<le> m"
      unfolding lm by (rule align_le)
    also have "m \<le> limit_max c"
      using that by (simp add: m_def)
    finally show ?thesis .
  qed
  have lower: "limit_min c \<le> l" if "4096 dvd limit_min c"
  proof -
    have "limit_min c \<le> m"
      by (simp add: m_def)
    with that show ?thesis
      unfolding lm by (rule align_ge_aligned)
  qed
  from l written low upper lower c' show ?thesis
    by simp
qed






text \<open>Printing a line changes nothing that is read from the files.\<close>

lemma files_log_out [simp]: "files (log_out w e) = files w"
  by (simp add: log_out_def)

lemma unwritable_log_out [simp]: "unwritable (log_out w e) = unwritable w"
  by (simp add: log_out_def)

lemma stdout_log_out [simp]: "stdout (log_out w e) = stdout w @ [e]"
  by (simp add: log_out_def)

lemma read_log_out [simp]: "read c (log_out w e) f = read c w f"
  by (simp add: read_def)

lemma readlines_log_out [simp]: "readlines c (log_out w e) f = readlines c w f"
  by (simp add: readlines_def)

lemma read_limit_log_out [simp]: "read_limit c (log_out w e) = read_limit c w"
  by (simp add: read_limit_def)

lemma read_current_log_out [simp]: "read_current c (log_out w e) = read_current c w"
  by (simp add: read_current_def)






subsection \<open>Bounds and alignment of the stored limit\<close>

text \<open>
  Claim C1, as the source has it. Every limit that \<^verbatim>\<open>set_limit\<close> stores is the
  value it writes to \<^verbatim>\<open>memory.high\<close> and has its low 12 bits zero. It is at most
  \<open>limit_max\<close> when \<open>limit_min \<le> limit_max\<close>, and at least \<open>limit_min\<close> when
  \<open>limit_min\<close> is a multiple of 4096: the bounds are applied first and the rounding
  down to a page comes after. The two bounds of the handle never change.
\<close>

theorem set_limit_bounds_aligned:
  assumes "set_limit c w cand = Inr (c', w')"
  shows "\<exists>l. limit c' = Some l
           \<and> map_of (files w') (path_join (path c) ''memory.high'') = Some (str l)
           \<and> take_bit 12 l = 0
           \<and> (limit_min c \<le> limit_max c \<longrightarrow> l \<le> limit_max c)
           \<and> (4096 dvd limit_min c \<longrightarrow> limit_min c \<le> l)
           \<and> limit_min c' = limit_min c \<and> limit_max c' = limit_max c"
  using assms by (rule set_limit_bounds_aligned_aux)

theorem set_limit_bounds_aligned_witness:
  "set_limit ex_cgroup ex_world None
     = Inr (ex_cgroup\<lparr>limit := Some 1073741824\<rparr>,
            \<lparr>files = ex_files_set, unwritable = [], stdout = [ResettingLine]\<rparr>)
   \<and> (\<exists>l. limit (ex_cgroup\<lparr>limit := Some 1073741824\<rparr>) = Some l \<and> take_bit 12 l = 0
          \<and> l \<le> 107374182400 \<and> 104857600 \<le> l)"
proof -
  have h: "set_limit ex_cgroup ex_world None
     = Inr (ex_cgroup\<lparr>limit := Some 1073741824\<rparr>,
            \<lparr>files = ex_files_set, unwritable = [], stdout = [ResettingLine]\<rparr>)"
    by code_simp
  have b: "limit_min ex_cgroup \<le> limit_max ex_cgroup" "4096 dvd limit_min ex_cgroup"
    by (simp_all add: ex_cgroup_def)
  from set_limit_bounds_aligned [OF h] b have
    "\<exists>l. limit (ex_cgroup\<lparr>limit := Some 1073741824\<rparr>) = Some l \<and> take_bit 12 l = 0
          \<and> l \<le> limit_max ex_cgroup \<and> limit_min ex_cgroup \<le> l"
    by blast
  then show ?thesis
    using h by (simp add: ex_cgroup_def)
qed

text \<open>
  The claim as stated, for every configuration, fails: with a lower bound of 100 bytes
  and the candidate 50, the limit stored and written is 0.
\<close>

theorem set_limit_below_min_counterexample:
  "set_limit odd_cgroup odd_world (Some 50)
     = Inr (odd_cgroup\<lparr>limit := Some 0\<rparr>,
            odd_world\<lparr>files := [(''cg/memory.high'', ''0''), (''cg/memory.current'', ''5000'')]\<rparr>)
   \<and> \<not> limit_min odd_cgroup \<le> 0"
  by code_simp

subsection \<open>Resynchronising with a limit set by someone else\<close>

text \<open>
  Claim C2. Let \<^verbatim>\<open>memory.high\<close> hold the limit \<open>rl\<close> and be writable. If \<open>rl\<close> differs
  from the limit the handle stored last, which is always so while nothing is stored,
  then \<^verbatim>\<open>set_limit\<close> does not use its candidate, whatever it is: when the current
  usage can be read the call returns, prints the resetting line, and stores and
  writes the usage, bounded and aligned; when it cannot be read the call raises that
  error. If \<open>rl\<close> is the limit stored, the call returns for every integer candidate,
  prints nothing, and stores and writes the candidate, bounded and aligned; the
  candidate \<open>None\<close> raises \<^verbatim>\<open>TypeError\<close> there.
\<close>

theorem set_limit_resynchronises:
  assumes "read_limit c w = Inr rl"
    and "high_path c \<notin> set (unwritable w)"
  shows "(Some rl \<noteq> limit c \<longrightarrow>
            (\<forall>cur. read_current c w = Inr cur \<longrightarrow>
               set_limit c w cand
               = Inr (c\<lparr>limit := Some (sanitized c cur)\<rparr>,
                      w\<lparr>files := AList.update (high_path c) (str (sanitized c cur)) (files w),
                        stdout := stdout w @ [ResettingLine]\<rparr>))
          \<and> (\<forall>e. read_current c w = Inl e \<longrightarrow> set_limit c w cand = Inl e))
       \<and> (Some rl = limit c \<longrightarrow>
            (\<forall>l. set_limit c w (Some l)
               = Inr (c\<lparr>limit := Some (sanitized c l)\<rparr>,
                      w\<lparr>files := AList.update (high_path c) (str (sanitized c l)) (files w)\<rparr>))
          \<and> set_limit c w None = Inl TypeError)
       \<and> (limit c = None \<longrightarrow> Some rl \<noteq> limit c)"
proof (intro conjI impI allI)
  fix cur
  assume "Some rl \<noteq> limit c" and "read_current c w = Inr cur"
  with assms show "set_limit c w cand
      = Inr (c\<lparr>limit := Some (sanitized c cur)\<rparr>,
             w\<lparr>files := AList.update (high_path c) (str (sanitized c cur)) (files w),
               stdout := stdout w @ [ResettingLine]\<rparr>)"
    unfolding set_limit_def import_limit_def write_cg_def log_out_def by simp
next
  fix e
  assume "Some rl \<noteq> limit c" and "read_current c w = Inl e"
  with assms show "set_limit c w cand = Inl e"
    unfolding set_limit_def import_limit_def by simp
next
  fix l
  assume "Some rl = limit c"
  with assms show "set_limit c w (Some l)
      = Inr (c\<lparr>limit := Some (sanitized c l)\<rparr>,
             w\<lparr>files := AList.update (high_path c) (str (sanitized c l)) (files w)\<rparr>)"
    unfolding set_limit_def import_limit_def write_cg_def by simp
next
  assume "Some rl = limit c"
  with assms show "set_limit c w None = Inl TypeError"
    unfolding set_limit_def import_limit_def by simp
next
  assume "limit c = None"
  then show "Some rl \<noteq> limit c"
    by simp
qed

text \<open>
  The witness: a first call with nothing stored, where the limit file holds
  \<^verbatim>\<open>max\<close> and the candidate \<open>None\<close> gives way to the usage of one GiB, and a later call
  where the limit read is the limit stored, 4096, and the candidate 50 is bounded
  from below by 100 and aligned to 0.
\<close>

theorem set_limit_resynchronises_witness:
  "set_limit ex_cgroup ex_world None
     = Inr (ex_cgroup\<lparr>limit := Some 1073741824\<rparr>,
            \<lparr>files = ex_files_set, unwritable = [], stdout = [ResettingLine]\<rparr>)
   \<and> set_limit odd_cgroup odd_world (Some 50)
     = Inr (odd_cgroup\<lparr>limit := Some 0\<rparr>,
            odd_world\<lparr>files := [(''cg/memory.high'', ''0''), (''cg/memory.current'', ''5000'')]\<rparr>)
   \<and> set_limit odd_cgroup odd_world None = Inl TypeError"
proof -
  have r1: "read_limit ex_cgroup ex_world = Inr 18446744073709551615"
    by code_simp
  have u1: "read_current ex_cgroup ex_world = Inr 1073741824"
    by code_simp
  have p1: "high_path ex_cgroup \<notin> set (unwritable ex_world)"
    by (simp add: ex_world_def)
  have d1: "Some 18446744073709551615 \<noteq> limit ex_cgroup"
    by (simp add: ex_cgroup_def)
  have s1: "sanitized ex_cgroup 1073741824 = 1073741824"
    by code_simp
  have t1: "str 1073741824 = ''1073741824''"
    by code_simp
  have f1: "AList.update (high_path ex_cgroup) ''1073741824'' (files ex_world) = ex_files_set"
    by code_simp
  have r2: "read_limit odd_cgroup odd_world = Inr 4096"
    by code_simp
  have p2: "high_path odd_cgroup \<notin> set (unwritable odd_world)"
    by (simp add: odd_world_def)
  have d2: "Some 4096 = limit odd_cgroup"
    by (simp add: odd_cgroup_def)
  have s2: "sanitized odd_cgroup 50 = 0"
    by code_simp
  have t2: "str 0 = ''0''"
    by code_simp
  have f2: "AList.update (high_path odd_cgroup) ''0'' (files odd_world)
            = [(''cg/memory.high'', ''0''), (''cg/memory.current'', ''5000'')]"
    by code_simp
  from set_limit_resynchronises [OF r1 p1, of None] d1 u1
  have "set_limit ex_cgroup ex_world None
     = Inr (ex_cgroup\<lparr>limit := Some (sanitized ex_cgroup 1073741824)\<rparr>,
            ex_world\<lparr>files := AList.update (high_path ex_cgroup)
                                (str (sanitized ex_cgroup 1073741824)) (files ex_world),
                     stdout := stdout ex_world @ [ResettingLine]\<rparr>)"
    by blast
  then have first: "set_limit ex_cgroup ex_world None
     = Inr (ex_cgroup\<lparr>limit := Some 1073741824\<rparr>,
            \<lparr>files = ex_files_set, unwritable = [], stdout = [ResettingLine]\<rparr>)"
    unfolding s1 t1 f1 by (simp add: ex_world_def)
  from set_limit_resynchronises [OF r2 p2, of None] d2
  have "set_limit odd_cgroup odd_world (Some 50)
     = Inr (odd_cgroup\<lparr>limit := Some (sanitized odd_cgroup 50)\<rparr>,
            odd_world\<lparr>files := AList.update (high_path odd_cgroup)
                                 (str (sanitized odd_cgroup 50)) (files odd_world)\<rparr>)
     \<and> set_limit odd_cgroup odd_world None = Inl TypeError"
    by blast
  then have later: "set_limit odd_cgroup odd_world (Some 50)
     = Inr (odd_cgroup\<lparr>limit := Some 0\<rparr>,
            odd_world\<lparr>files := [(''cg/memory.high'', ''0''), (''cg/memory.current'', ''5000'')]\<rparr>)
     \<and> set_limit odd_cgroup odd_world None = Inl TypeError"
    unfolding s2 t2 f2 by simp
  from first later show ?thesis
    by simp
qed

subsection \<open>An adjustment resets the integral\<close>



subsection \<open>The curve for backing off\<close>




subsection \<open>The curve for probing\<close>




subsection \<open>Scaling the unbounded limit\<close>





end
